theory Spec2Isabelle
  imports Complex_Main
begin

section \<open>Data model (model/currency.go, service/service.go)\<close>

text \<open>
  The Go type \<open>currency\<close> is an unexported string type with the two constants
  \<open>Fiat\<close> and \<open>Crypto\<close>.
\<close>

datatype currency = Fiat | Crypto

record Currency =
  Name :: string
  Symbol :: string
  CurrencyType :: currency

text \<open>
  Rates are \<open>float64\<close> in the source. The rate type is left open here as a type
  variable \<open>'r\<close>; the operations the code applies to a rate (\<open>1.0 / rate\<close>, the zero
  value of a missing map entry) are the operations of the syntactic classes \<open>one\<close>,
  \<open>inverse\<close> and \<open>zero\<close>, about which nothing is assumed. Every theorem below
  therefore holds for whatever division the machine performs.
\<close>

record 'r ExchangeRate =
  Base :: Currency
  Target :: Currency
  Rate :: 'r

text \<open>
  A Go \<open>error\<close> value; \<open>nil\<close> is \<open>None\<close> of \<open>error option\<close>. \<open>Error msg\<close> is an
  error with the message \<open>msg\<close>; \<open>CodeError c\<close> stands for
  \<open>fmt.Errorf("unable to fetch rate due to code: %d", c)\<close>, whose decimal rendering
  is not spelled out.
\<close>

datatype error = Error string | CodeError int

text \<open>\<open>map[string]map[string]float64\<close>; a nil map reads like an empty one.\<close>

type_synonym 'r RateTable = "string \<rightharpoonup> (string \<rightharpoonup> 'r)"

record 'r LookUp =
  FiatToCrypto :: "'r RateTable"
  CryptoToFiat :: "'r RateTable"
  FiatLookupErr :: "error option"
  CryptoLookupErr :: "error option"

section \<open>The rate cache (storage/cache/cache.go)\<close>

text \<open>
  Of \<open>MCache\<close> only the two tables are state that the lookups and the refresh read
  and write; the lock, ticker and channels carry no data. The two collaborators
  (\<open>persistenceStorage\<close>, \<open>exchangeClient\<close>) are interfaces and are passed to
  \<open>loadAndCache\<close> as parameters.
\<close>

record 'r MCache =
  fiatToCrypto :: "'r RateTable"
  cryptoToFiat :: "'r RateTable"

text \<open>The two-level read \<open>table[base][target]\<close> with its presence flag.\<close>

definition lookupRate :: "'r RateTable \<Rightarrow> string \<Rightarrow> string \<Rightarrow> 'r option" where
  "lookupRate table b t = (case table b of None \<Rightarrow> None | Some row \<Rightarrow> row t)"

text \<open>
  The block of \<open>Get\<close> commented \<open>lookup as C2F\<close>: the outer test is on
  \<open>cryptoToFiat[from]\<close>; the reciprocal fallback to \<open>fiatToCrypto[to][from]\<close> sits
  inside it. \<open>None\<close> means that the block falls through.
\<close>

definition lookupC2F :: "('r::{one,inverse}) MCache \<Rightarrow> string \<Rightarrow> string \<Rightarrow> 'r ExchangeRate option" where
  "lookupC2F m from to =
     (case cryptoToFiat m from of
        None \<Rightarrow> None
      | Some ratesMap \<Rightarrow>
          (case ratesMap to of
             Some rate \<Rightarrow>
               Some \<lparr>Base = \<lparr>Name = [], Symbol = from, CurrencyType = Crypto\<rparr>,
                     Target = \<lparr>Name = [], Symbol = to, CurrencyType = Fiat\<rparr>,
                     Rate = rate\<rparr>
           | None \<Rightarrow>
               (case fiatToCrypto m to of
                  None \<Rightarrow> None
                | Some fiatsRates \<Rightarrow>
                    (case fiatsRates from of
                       None \<Rightarrow> None
                     | Some rate \<Rightarrow>
                         Some \<lparr>Base = \<lparr>Name = [], Symbol = from, CurrencyType = Crypto\<rparr>,
                               Target = \<lparr>Name = [], Symbol = to, CurrencyType = Fiat\<rparr>,
                               Rate = 1 / rate\<rparr>))))"

text \<open>The block commented \<open>lookup as F2C\<close>, of the same shape with the tables swapped.\<close>

definition lookupF2C :: "('r::{one,inverse}) MCache \<Rightarrow> string \<Rightarrow> string \<Rightarrow> 'r ExchangeRate option" where
  "lookupF2C m from to =
     (case fiatToCrypto m from of
        None \<Rightarrow> None
      | Some ratesMap \<Rightarrow>
          (case ratesMap to of
             Some rate \<Rightarrow>
               Some \<lparr>Base = \<lparr>Name = [], Symbol = from, CurrencyType = Fiat\<rparr>,
                     Target = \<lparr>Name = [], Symbol = to, CurrencyType = Crypto\<rparr>,
                     Rate = rate\<rparr>
           | None \<Rightarrow>
               (case cryptoToFiat m to of
                  None \<Rightarrow> None
                | Some rates \<Rightarrow>
                    (case rates from of
                       None \<Rightarrow> None
                     | Some rate \<Rightarrow>
                         Some \<lparr>Base = \<lparr>Name = [], Symbol = from, CurrencyType = Fiat\<rparr>,
                               Target = \<lparr>Name = [], Symbol = to, CurrencyType = Crypto\<rparr>,
                               Rate = 1 / rate\<rparr>))))"

text \<open>
  \<open>MCache.Get\<close>. \<open>strings.ToUpper\<close> belongs to the Go library and is the parameter
  \<open>toUpper\<close>. On failure Go returns the zero \<open>ExchangeRate\<close> beside the error; the
  model returns the error alone (\<open>Inl\<close>).
\<close>

definition Get :: "(string \<Rightarrow> string) \<Rightarrow> ('r::{one,inverse}) MCache \<Rightarrow> string \<Rightarrow> string
    \<Rightarrow> error + 'r ExchangeRate" where
  "Get toUpper m from0 to0 =
     (let from = toUpper from0; to = toUpper to0 in
      case lookupC2F m from to of
        Some er \<Rightarrow> Inr er
      | None \<Rightarrow>
          (case lookupF2C m from to of
             Some er \<Rightarrow> Inr er
           | None \<Rightarrow> Inl (Error (''invalid conversion for pair: '' @ from @ ''/'' @ to))))"

text \<open>
  \<open>strings.ToUpper\<close> on ASCII text, used to run \<open>Get\<close> on concrete symbols: the
  letters \<open>a\<close> to \<open>z\<close> move down by 32, every other byte stays.
\<close>

definition upperChar :: "char \<Rightarrow> char" where
  "upperChar c =
     (let n = (of_char c :: nat) in if 97 \<le> n \<and> n \<le> 122 then char_of (n - 32) else c)"

definition ToUpper :: "string \<Rightarrow> string" where
  "ToUpper s = map upperChar s"

text \<open>
  \<open>MCache.loadAndCache\<close>. \<open>storageLoad\<close> is what \<open>persistenceStorage.Load\<close> returns
  (fiats, cryptos, error), \<open>exchangeGetAllRates\<close> is the \<open>GetAllRates\<close> method of the
  exchange client, called with the cryptos first. The result is the returned error
  and the cache afterwards.
\<close>

definition loadAndCache :: "Currency list \<times> Currency list \<times> error option
    \<Rightarrow> (Currency list \<Rightarrow> Currency list \<Rightarrow> 'r LookUp) \<Rightarrow> 'r MCache \<Rightarrow> error option \<times> 'r MCache" where
  "loadAndCache storageLoad exchangeGetAllRates m =
     (case storageLoad of (fiats, cryptos, err) \<Rightarrow>
        (case err of
           Some e \<Rightarrow> (Some e, m)
         | None \<Rightarrow>
             (let lookup = exchangeGetAllRates cryptos fiats in
              case CryptoLookupErr lookup of
                Some e \<Rightarrow> (Some e, m)
              | None \<Rightarrow>
                  (case FiatLookupErr lookup of
                     Some e \<Rightarrow> (Some e, m)
                   | None \<Rightarrow>
                       (None, m\<lparr>cryptoToFiat := CryptoToFiat lookup,
                                 fiatToCrypto := FiatToCrypto lookup\<rparr>)))))"

section \<open>The exchange client (service/forex/forex.go)\<close>

subsection \<open>GetAllRates: the request lists\<close>

text \<open>
  The nested loop at the head of \<open>GetAllRates\<close>, over \<open>fiats\<close> outside and
  \<open>cryptos\<close> inside, with the pair (\<open>fiatTargets\<close>, \<open>cryptoCombos\<close>) as its state.
\<close>

fun cryptosLoop :: "Currency \<Rightarrow> Currency list \<Rightarrow> (string \<rightharpoonup> string) \<times> string list
    \<Rightarrow> (string \<rightharpoonup> string) \<times> string list" where
  "cryptosLoop fiat [] acc = acc"
| "cryptosLoop fiat (crypto # cryptos) (fiatTargets, cryptoCombos) =
     cryptosLoop fiat cryptos
       (fiatTargets(Symbol fiat \<mapsto> Symbol crypto),
        cryptoCombos @ [Symbol crypto @ ''/'' @ Symbol fiat])"

fun fiatsLoop :: "Currency list \<Rightarrow> Currency list \<Rightarrow> (string \<rightharpoonup> string) \<times> string list
    \<Rightarrow> (string \<rightharpoonup> string) \<times> string list" where
  "fiatsLoop [] cryptos acc = acc"
| "fiatsLoop (fiat # fiats) cryptos acc = fiatsLoop fiats cryptos (cryptosLoop fiat cryptos acc)"

text \<open>The two variables start as an empty map and a nil slice.\<close>

definition GetAllRates_lists :: "Currency list \<Rightarrow> Currency list
    \<Rightarrow> (string \<rightharpoonup> string) \<times> string list" where
  "GetAllRates_lists cryptos fiats = fiatsLoop fiats cryptos (Map.empty, [])"

subsection \<open>getCryptoRates: the batches\<close>

text \<open>
  The loop \<open>for batchNum > 0\<close> of \<open>getCryptoRates\<close>, on Go's \<open>int\<close>s. Its state is
  \<open>batchNum\<close>, \<open>leftToProcess\<close>, \<open>start\<close>, \<open>end\<close> and the index ranges of
  the workers launched so far. \<open>acquire k\<close> is what the \<open>k\<close>-th call of \<open>sem.Acquire\<close>
  returns (counting from 0); an error there returns from the function at once. The
  result is the ranges of the launched workers and the error returned by the loop.
\<close>

function batchLoop :: "(nat \<Rightarrow> error option) \<Rightarrow> int \<Rightarrow> int \<Rightarrow> int \<Rightarrow> int \<Rightarrow> int \<Rightarrow> (int \<times> int) list
    \<Rightarrow> (int \<times> int) list \<times> error option" where
  "batchLoop acquire batchSize batchNum leftToProcess start end launched =
     (if batchNum > 0 then
        (let (start', end') =
               (if leftToProcess > batchSize then (end, end + batchSize)
                else (end, end + leftToProcess))
         in case acquire (length launched) of
              Some err \<Rightarrow> (launched, Some err)
            | None \<Rightarrow>
                batchLoop acquire batchSize (batchNum - 1) (leftToProcess - batchSize)
                  start' end' (launched @ [(start', end')]))
      else (launched, None))"
  by pat_completeness auto
termination
  by (relation "measure (\<lambda>(acquire, batchSize, batchNum, leftToProcess, start, end, launched).
        nat batchNum)") auto

declare batchLoop.simps [simp del]

text \<open>\<open>batchSize = 1 // api allows 10, but is broken\<close>\<close>

definition batchSize :: int where
  "batchSize = 1"

text \<open>
  The set-up of the loop: \<open>leftToProcess = len(symbols)\<close>,
  \<open>batchNum = int(math.Ceil(float64(leftToProcess) / float64(batchSize)))\<close> (exact on
  lengths below \<open>2^53\<close>, so the ceiling is taken over the reals), \<open>start = end = 0\<close>.
\<close>

definition getCryptoRates_batches :: "(nat \<Rightarrow> error option) \<Rightarrow> string list
    \<Rightarrow> (int \<times> int) list \<times> error option" where
  "getCryptoRates_batches acquire symbols =
     (let leftToProcess = int (length symbols);
          batchNum = \<lceil>real_of_int leftToProcess / real_of_int batchSize\<rceil>
      in batchLoop acquire batchSize batchNum leftToProcess 0 0 [])"

text \<open>
  The slice expression \<open>symbols[from:to]\<close> that a worker passes to \<open>GetCryptoRates\<close>;
  Go panics (\<open>None\<close>) unless \<open>0 \<le> from \<le> to \<le> len(symbols)\<close>.
\<close>

definition slice :: "'a list \<Rightarrow> int \<Rightarrow> int \<Rightarrow> 'a list option" where
  "slice xs from to =
     (if 0 \<le> from \<and> from \<le> to \<and> to \<le> int (length xs)
      then Some (take (nat (to - from)) (drop (nat from) xs)) else None)"

subsection \<open>mergeResults\<close>

text \<open>The body of the receive case: one record is written into the table.\<close>

definition storeRate :: "'r ExchangeRate \<Rightarrow> 'r RateTable \<Rightarrow> 'r RateTable" where
  "storeRate er storage =
     (case storage (Symbol (Base er)) of
        None \<Rightarrow> storage(Symbol (Base er) \<mapsto> [Symbol (Target er) \<mapsto> Rate er])
      | Some row \<Rightarrow> storage(Symbol (Base er) \<mapsto> row(Symbol (Target er) \<mapsto> Rate er)))"

text \<open>
  One round of the loop is one \<open>select\<close> that fires. \<open>deadline\<close> is the context:
  \<open>Some k\<close> when the \<open>select\<close> takes \<open>case <-ctx.Done()\<close> after \<open>k\<close> rounds of
  receiving, \<open>None\<close> when the context is never done.
\<close>

definition tick :: "nat option \<Rightarrow> nat option" where
  "tick deadline = map_option (\<lambda>k. k - 1) deadline"

text \<open>
  \<open>client.mergeResults\<close>. The channel delivers the records \<open>rs\<close> in order and is then
  closed, so that every later receive yields \<open>isOpen = false\<close>. In that case the
  source executes \<open>break\<close>, which in Go leaves the innermost \<open>select\<close>, not the
  enclosing \<open>for\<close>: the loop goes round again. The only \<open>return\<close> is under
  \<open>case <-ctx.Done()\<close>. The result is the table at the return; \<open>None\<close> is a loop
  that never returns.
\<close>

partial_function (option) mergeResults :: "nat option \<Rightarrow> 'r ExchangeRate list \<Rightarrow> 'r RateTable
    \<Rightarrow> 'r RateTable option" where
  "mergeResults deadline rs storage =
     (if deadline = Some 0 then Some storage
      else (case rs of
              [] \<Rightarrow> mergeResults (tick deadline) [] storage
            | er # rest \<Rightarrow> mergeResults (tick deadline) rest (storeRate er storage)))"

subsection \<open>Do and GetRate\<close>

record 'r Response =
  Response_Base :: string
  Results :: "string \<rightharpoonup> 'r"
  Updated :: string
  Ms :: int

text \<open>
  What the outside world answers during one call of \<open>GetRate\<close>: the errors of
  \<open>baseURL.Parse\<close>, \<open>http.NewRequest\<close> and \<open>rateLimiter.Wait\<close>, and the outcome of
  \<open>httpClient.Do\<close>, an error or a response with its status code and what the JSON
  decoder makes of its body (\<open>Decoded r\<close>: the target struct after decoding).
\<close>

datatype 'r decoding = DecodeEOF | DecodeError error | Decoded "'r Response"

record 'r HTTPResponse =
  StatusCode :: int
  Body :: "'r decoding"

record 'r world =
  parseErr :: "error option"
  newRequestErr :: "error option"
  waitErr :: "error option"
  httpResult :: "error + 'r HTTPResponse"

text \<open>
  \<open>client.Do\<close> with a \<open>*Response\<close> as \<open>v\<close> (the \<open>default\<close> branch of its type
  switch); the result is the error, or \<open>v\<close> after the call.
\<close>

definition Do :: "'r world \<Rightarrow> 'r Response \<Rightarrow> error + 'r Response" where
  "Do w v =
     (case waitErr w of
        Some err \<Rightarrow> Inl err
      | None \<Rightarrow>
          (case httpResult w of
             Inl err \<Rightarrow> Inl err
           | Inr resp \<Rightarrow>
               if StatusCode resp \<noteq> 200 then Inl (CodeError (StatusCode resp))
               else (case Body resp of
                       DecodeEOF \<Rightarrow> Inr v
                     | DecodeError decErr \<Rightarrow> Inl decErr
                     | Decoded r \<Rightarrow> Inr r)))"

text \<open>
  \<open>client.GetRate\<close>. \<open>r.Results[to]\<close> is a Go map read: the zero value when the key
  is missing (also on a nil map).
\<close>

definition GetRate :: "('r::zero) world \<Rightarrow> string \<Rightarrow> string \<Rightarrow> error + 'r ExchangeRate" where
  "GetRate w from to =
     (case parseErr w of
        Some err \<Rightarrow> Inl err
      | None \<Rightarrow>
          (case newRequestErr w of
             Some err \<Rightarrow> Inl err
           | None \<Rightarrow>
               (case Do w \<lparr>Response_Base = [], Results = Map.empty, Updated = [], Ms = 0\<rparr> of
                  Inl err \<Rightarrow> Inl err
                | Inr r \<Rightarrow>
                    Inr \<lparr>Base = \<lparr>Name = [], Symbol = Response_Base r, CurrencyType = Fiat\<rparr>,
                         Target = \<lparr>Name = [], Symbol = to, CurrencyType = Crypto\<rparr>,
                         Rate = (case Results r to of None \<Rightarrow> 0 | Some rate \<Rightarrow> rate)\<rparr>)))"

section \<open>Concrete inputs\<close>

text \<open>
  The scenario of the specification: fiats USD and EUR, crypto BTC, with the rates of
  both passes, over the reals.
\<close>

definition scenario :: "real MCache" where
  "scenario =
     \<lparr>fiatToCrypto = [''USD'' \<mapsto> [''BTC'' \<mapsto> 2 / 100000], ''EUR'' \<mapsto> [''BTC'' \<mapsto> 217 / 10000000]],
      cryptoToFiat = [''BTC'' \<mapsto> [''USD'' \<mapsto> 50000, ''EUR'' \<mapsto> 46000]]\<rparr>"

text \<open>Only the fiat pass has an entry: BTC is no base of \<open>cryptoToFiat\<close>.\<close>

definition cryptoless :: "real MCache" where
  "cryptoless =
     \<lparr>fiatToCrypto = [''USD'' \<mapsto> [''BTC'' \<mapsto> 2 / 100000]], cryptoToFiat = Map.empty\<rparr>"

text \<open>BTC is a base of \<open>cryptoToFiat\<close> without a GBP entry; the fiat pass has GBP to BTC.\<close>

definition derivable :: "real MCache" where
  "derivable =
     \<lparr>fiatToCrypto = [''GBP'' \<mapsto> [''BTC'' \<mapsto> 4]],
      cryptoToFiat = [''BTC'' \<mapsto> [''USD'' \<mapsto> 50000]]\<rparr>"

text \<open>Tables in which the symbol AAA is a base of both tables.\<close>

definition overlapping :: "real MCache" where
  "overlapping =
     \<lparr>fiatToCrypto = [''AAA'' \<mapsto> [''BBB'' \<mapsto> 2], ''BBB'' \<mapsto> [''AAA'' \<mapsto> 4]],
      cryptoToFiat = [''AAA'' \<mapsto> [''CCC'' \<mapsto> 1]]\<rparr>"

text \<open>Two answers of \<open>GetAllRates\<close>: one whose fiat pass failed, one complete.\<close>

definition failingLookUp :: "real LookUp" where
  "failingLookUp =
     \<lparr>FiatToCrypto = Map.empty, CryptoToFiat = [''BTC'' \<mapsto> [''USD'' \<mapsto> 1]],
      FiatLookupErr = Some (Error ''context deadline exceeded''), CryptoLookupErr = None\<rparr>"

definition freshLookUp :: "real LookUp" where
  "freshLookUp =
     \<lparr>FiatToCrypto = [''USD'' \<mapsto> [''BTC'' \<mapsto> 1 / 60000]],
      CryptoToFiat = [''BTC'' \<mapsto> [''USD'' \<mapsto> 60000]],
      FiatLookupErr = None, CryptoLookupErr = None\<rparr>"

text \<open>Catalog entries.\<close>

definition usd :: Currency where
  "usd = \<lparr>Name = ''US Dollar'', Symbol = ''USD'', CurrencyType = Fiat\<rparr>"

definition eur :: Currency where
  "eur = \<lparr>Name = ''Euro'', Symbol = ''EUR'', CurrencyType = Fiat\<rparr>"

definition btc :: Currency where
  "btc = \<lparr>Name = ''BITCOIN'', Symbol = ''BTC'', CurrencyType = Crypto\<rparr>"

definition eth :: Currency where
  "eth = \<lparr>Name = ''ETHEREUM'', Symbol = ''ETH'', CurrencyType = Crypto\<rparr>"

text \<open>Two fetched records: a crypto rate, and a fiat rate whose value is zero.\<close>

definition btcUsd :: "real ExchangeRate" where
  "btcUsd =
     \<lparr>Base = \<lparr>Name = [], Symbol = ''BTC'', CurrencyType = Crypto\<rparr>,
      Target = \<lparr>Name = [], Symbol = ''USD'', CurrencyType = Fiat\<rparr>,
      Rate = 50000\<rparr>"

definition zeroRate :: "real ExchangeRate" where
  "zeroRate =
     \<lparr>Base = \<lparr>Name = [], Symbol = ''USD'', CurrencyType = Fiat\<rparr>,
      Target = \<lparr>Name = [], Symbol = ''BTC'', CurrencyType = Crypto\<rparr>,
      Rate = 0\<rparr>"

text \<open>
  A provider answer with status 200 whose decoded body has base USD and a rate for
  ETH only.
\<close>

definition usdBody :: "real Response" where
  "usdBody =
     \<lparr>Response_Base = ''USD'', Results = [''ETH'' \<mapsto> 4 / 10000],
      Updated = ''2024-01-01 00:00:00'', Ms = 3\<rparr>"

definition usdAnswer :: "real HTTPResponse" where
  "usdAnswer = \<lparr>StatusCode = 200, Body = Decoded usdBody\<rparr>"

definition usdWithoutBtc :: "real world" where
  "usdWithoutBtc =
     \<lparr>parseErr = None, newRequestErr = None, waitErr = None, httpResult = Inr usdAnswer\<rparr>"

text \<open>Semaphores: one that grants every permit, one that fails on the second call.\<close>

definition granting :: "nat \<Rightarrow> error option" where
  "granting k = None"

definition failingSecond :: "nat \<Rightarrow> error option" where
  "failingSecond k = (if k = 1 then Some (Error ''context deadline exceeded'') else None)"

definition refusing :: "nat \<Rightarrow> error option" where
  "refusing k = Some (Error ''context deadline exceeded'')"

section \<open>Lookups: Get\<close>

lemma upper_symbols:
  "ToUpper ''btc'' = ''BTC''" "ToUpper ''usd'' = ''USD''" "ToUpper ''gbp'' = ''GBP''"
  "ToUpper ''BTC'' = ''BTC''" "ToUpper ''USD'' = ''USD''" "ToUpper ''JPY'' = ''JPY''"
  "ToUpper ''AAA'' = ''AAA''" "ToUpper ''BBB'' = ''BBB''"
  by code_simp+

text \<open>
  Claim C5. When \<open>cryptoToFiat\<close> holds a rate for the upper-cased pair, \<open>Get\<close>
  succeeds with exactly that rate, the base (the upper-cased \<open>from\<close>) tagged
  \<open>Crypto\<close> and the target (the upper-cased \<open>to\<close>) tagged \<open>Fiat\<close>.
\<close>

theorem Get_direct_cryptoToFiat:
  assumes "lookupRate (cryptoToFiat m) (toUpper from) (toUpper to) = Some r"
  shows "Get toUpper m from to =
           Inr \<lparr>Base = \<lparr>Name = [], Symbol = toUpper from, CurrencyType = Crypto\<rparr>,
                Target = \<lparr>Name = [], Symbol = toUpper to, CurrencyType = Fiat\<rparr>,
                Rate = r\<rparr>"
  using assms
  by (auto simp: Get_def lookupC2F_def lookupRate_def split: option.splits)

theorem Get_direct_cryptoToFiat_witness:
  "lookupRate (cryptoToFiat scenario) (ToUpper ''btc'') (ToUpper ''usd'') = Some 50000 \<and>
   Get ToUpper scenario ''btc'' ''usd'' =
     Inr \<lparr>Base = \<lparr>Name = [], Symbol = ''BTC'', CurrencyType = Crypto\<rparr>,
          Target = \<lparr>Name = [], Symbol = ''USD'', CurrencyType = Fiat\<rparr>,
          Rate = 50000\<rparr>"
proof -
  have h: "lookupRate (cryptoToFiat scenario) (ToUpper ''btc'') (ToUpper ''usd'') = Some 50000"
    by (simp add: upper_symbols scenario_def lookupRate_def)
  show ?thesis
    using h Get_direct_cryptoToFiat [of scenario ToUpper "''btc''" "''usd''" 50000]
    by (simp add: upper_symbols)
qed

text \<open>
  Claim C6. When, for the upper-cased symbols, neither table holds the pair and
  neither holds the reversed pair, \<open>Get\<close> returns no rate but the error whose
  message names both upper-cased symbols.
\<close>

theorem Get_unknown_pair:
  assumes "lookupRate (cryptoToFiat m) (toUpper from) (toUpper to) = None"
    and "lookupRate (fiatToCrypto m) (toUpper from) (toUpper to) = None"
    and "lookupRate (fiatToCrypto m) (toUpper to) (toUpper from) = None"
    and "lookupRate (cryptoToFiat m) (toUpper to) (toUpper from) = None"
  shows "Get toUpper m from to =
           Inl (Error (''invalid conversion for pair: '' @ toUpper from @ ''/'' @ toUpper to))"
  using assms
  by (auto simp: Get_def lookupC2F_def lookupF2C_def lookupRate_def Let_def
           split: option.splits)

theorem Get_unknown_pair_witness:
  "lookupRate (cryptoToFiat scenario) (ToUpper ''btc'') (ToUpper ''JPY'') = None \<and>
   lookupRate (fiatToCrypto scenario) (ToUpper ''btc'') (ToUpper ''JPY'') = None \<and>
   lookupRate (fiatToCrypto scenario) (ToUpper ''JPY'') (ToUpper ''btc'') = None \<and>
   lookupRate (cryptoToFiat scenario) (ToUpper ''JPY'') (ToUpper ''btc'') = None \<and>
   Get ToUpper scenario ''btc'' ''JPY'' = Inl (Error ''invalid conversion for pair: BTC/JPY'')"
  using Get_unknown_pair [of scenario ToUpper "''btc''" "''JPY''"]
  by (simp add: upper_symbols scenario_def lookupRate_def)

text \<open>
  Claim C1, as stated, fails: with an empty \<open>cryptoToFiat\<close> and
  \<open>fiatToCrypto[USD][BTC]\<close> present, \<open>Get(BTC, USD)\<close> has no direct entry and a
  reversed fiat entry, and yet returns the error. The reciprocal of the fiat table is
  looked up only inside the test that \<open>from\<close> is a base of \<open>cryptoToFiat\<close>.
\<close>

theorem Get_reciprocal_without_crypto_base_counterexample:
  "lookupRate (cryptoToFiat cryptoless) (ToUpper ''BTC'') (ToUpper ''USD'') = None \<and>
   lookupRate (fiatToCrypto cryptoless) (ToUpper ''USD'') (ToUpper ''BTC'') = Some (2 / 100000) \<and>
   Get ToUpper cryptoless ''BTC'' ''USD'' = Inl (Error ''invalid conversion for pair: BTC/USD'')"
  by (simp add: upper_symbols cryptoless_def lookupRate_def Get_def lookupC2F_def lookupF2C_def)

text \<open>
  Claim C1, amended. When the upper-cased \<open>from\<close> is a base of \<open>cryptoToFiat\<close>
  whose row has no entry for the upper-cased \<open>to\<close>, and \<open>fiatToCrypto[to][from] = r\<close>
  is present, \<open>Get\<close> succeeds with the rate \<open>1 / r\<close>, base tagged \<open>Crypto\<close> and
  target tagged \<open>Fiat\<close>.
\<close>

theorem Get_reciprocal_of_fiatToCrypto:
  assumes "cryptoToFiat m (toUpper from) = Some ratesMap"
    and "ratesMap (toUpper to) = None"
    and "lookupRate (fiatToCrypto m) (toUpper to) (toUpper from) = Some r"
  shows "Get toUpper m from to =
           Inr \<lparr>Base = \<lparr>Name = [], Symbol = toUpper from, CurrencyType = Crypto\<rparr>,
                Target = \<lparr>Name = [], Symbol = toUpper to, CurrencyType = Fiat\<rparr>,
                Rate = 1 / r\<rparr>"
  using assms
  by (auto simp: Get_def lookupC2F_def lookupRate_def split: option.splits)

theorem Get_reciprocal_of_fiatToCrypto_witness:
  "cryptoToFiat derivable (ToUpper ''btc'') = Some [''USD'' \<mapsto> 50000] \<and>
   [''USD'' \<mapsto> 50000 :: real] (ToUpper ''gbp'') = None \<and>
   lookupRate (fiatToCrypto derivable) (ToUpper ''gbp'') (ToUpper ''btc'') = Some 4 \<and>
   Get ToUpper derivable ''btc'' ''gbp'' =
     Inr \<lparr>Base = \<lparr>Name = [], Symbol = ''BTC'', CurrencyType = Crypto\<rparr>,
          Target = \<lparr>Name = [], Symbol = ''GBP'', CurrencyType = Fiat\<rparr>,
          Rate = 1 / 4\<rparr>"
  using Get_reciprocal_of_fiatToCrypto
          [of derivable ToUpper "''btc''" "[''USD'' \<mapsto> 50000]" "''gbp''" 4]
  by (simp add: upper_symbols derivable_def lookupRate_def)

text \<open>
  Claim C4, as stated, fails: in \<open>overlapping\<close> the pair (AAA, BBB) has the direct
  entry \<open>fiatToCrypto[AAA][BBB] = 2\<close>, but AAA is also a base of \<open>cryptoToFiat\<close>
  and \<open>fiatToCrypto[BBB][AAA] = 4\<close> is present, so \<open>Get\<close> answers from its first
  block with the derived rate \<open>1 / 4\<close>.
\<close>

theorem Get_derived_before_direct_counterexample:
  "lookupRate (fiatToCrypto overlapping) (ToUpper ''AAA'') (ToUpper ''BBB'') = Some 2 \<and>
   Get ToUpper overlapping ''AAA'' ''BBB'' =
     Inr \<lparr>Base = \<lparr>Name = [], Symbol = ''AAA'', CurrencyType = Crypto\<rparr>,
          Target = \<lparr>Name = [], Symbol = ''BBB'', CurrencyType = Fiat\<rparr>,
          Rate = 1 / 4\<rparr> \<and>
   (1 / 4 :: real) \<noteq> 2"
  by (simp add: upper_symbols overlapping_def lookupRate_def Get_def lookupC2F_def lookupF2C_def)

text \<open>
  Claim C4, amended. A direct entry of \<open>cryptoToFiat\<close> is always the answer. A
  direct entry of \<open>fiatToCrypto\<close> (with none in \<open>cryptoToFiat\<close>) is the answer,
  tagged fiat base and crypto target, whenever the first block does not answer
  before it: that is, unless \<open>from\<close> is a base of \<open>cryptoToFiat\<close> and
  \<open>fiatToCrypto[to][from]\<close> is present. In that last case (with no direct entry in
  \<open>cryptoToFiat\<close>) the first block answers with the derived rate
  \<open>1 / fiatToCrypto[to][from]\<close>, tagged crypto base and fiat target, whether or not
  \<open>fiatToCrypto[from][to]\<close> exists.
\<close>

theorem Get_direct_preferred:
  "(lookupRate (cryptoToFiat m) (toUpper from) (toUpper to) = Some r \<longrightarrow>
      Get toUpper m from to =
        Inr \<lparr>Base = \<lparr>Name = [], Symbol = toUpper from, CurrencyType = Crypto\<rparr>,
             Target = \<lparr>Name = [], Symbol = toUpper to, CurrencyType = Fiat\<rparr>,
             Rate = r\<rparr>) \<and>
   (lookupRate (cryptoToFiat m) (toUpper from) (toUpper to) = None \<and>
    lookupRate (fiatToCrypto m) (toUpper from) (toUpper to) = Some r \<and>
    (cryptoToFiat m (toUpper from) = None \<or>
     lookupRate (fiatToCrypto m) (toUpper to) (toUpper from) = None) \<longrightarrow>
      Get toUpper m from to =
        Inr \<lparr>Base = \<lparr>Name = [], Symbol = toUpper from, CurrencyType = Fiat\<rparr>,
             Target = \<lparr>Name = [], Symbol = toUpper to, CurrencyType = Crypto\<rparr>,
             Rate = r\<rparr>) \<and>
   (lookupRate (cryptoToFiat m) (toUpper from) (toUpper to) = None \<and>
    cryptoToFiat m (toUpper from) \<noteq> None \<and>
    lookupRate (fiatToCrypto m) (toUpper to) (toUpper from) = Some r' \<longrightarrow>
      Get toUpper m from to =
        Inr \<lparr>Base = \<lparr>Name = [], Symbol = toUpper from, CurrencyType = Crypto\<rparr>,
             Target = \<lparr>Name = [], Symbol = toUpper to, CurrencyType = Fiat\<rparr>,
             Rate = 1 / r'\<rparr>)"
  by (auto simp: Get_def lookupC2F_def lookupF2C_def lookupRate_def split: option.splits)

theorem Get_direct_preferred_witness:
  "lookupRate (cryptoToFiat scenario) (ToUpper ''BTC'') (ToUpper ''USD'') = Some 50000 \<and>
   Get ToUpper scenario ''BTC'' ''USD'' =
     Inr \<lparr>Base = \<lparr>Name = [], Symbol = ''BTC'', CurrencyType = Crypto\<rparr>,
          Target = \<lparr>Name = [], Symbol = ''USD'', CurrencyType = Fiat\<rparr>,
          Rate = 50000\<rparr> \<and>
   lookupRate (cryptoToFiat scenario) (ToUpper ''USD'') (ToUpper ''BTC'') = None \<and>
   lookupRate (fiatToCrypto scenario) (ToUpper ''USD'') (ToUpper ''BTC'') = Some (2 / 100000) \<and>
   cryptoToFiat scenario (ToUpper ''USD'') = None \<and>
   Get ToUpper scenario ''USD'' ''BTC'' =
     Inr \<lparr>Base = \<lparr>Name = [], Symbol = ''USD'', CurrencyType = Fiat\<rparr>,
          Target = \<lparr>Name = [], Symbol = ''BTC'', CurrencyType = Crypto\<rparr>,
          Rate = 2 / 100000\<rparr> \<and>
   lookupRate (cryptoToFiat derivable) (ToUpper ''btc'') (ToUpper ''gbp'') = None \<and>
   cryptoToFiat derivable (ToUpper ''btc'') = Some [''USD'' \<mapsto> 50000] \<and>
   lookupRate (fiatToCrypto derivable) (ToUpper ''gbp'') (ToUpper ''btc'') = Some 4 \<and>
   Get ToUpper derivable ''btc'' ''gbp'' =
     Inr \<lparr>Base = \<lparr>Name = [], Symbol = ''BTC'', CurrencyType = Crypto\<rparr>,
          Target = \<lparr>Name = [], Symbol = ''GBP'', CurrencyType = Fiat\<rparr>,
          Rate = 1 / 4\<rparr>"
  using Get_direct_preferred [of scenario ToUpper "''BTC''" "''USD''" 50000 0]
        Get_direct_preferred [of scenario ToUpper "''USD''" "''BTC''" "2 / 100000" 0]
        Get_direct_preferred [of derivable ToUpper "''btc''" "''gbp''" 0 4]
  by (simp add: upper_symbols scenario_def derivable_def lookupRate_def)

section \<open>Refresh: loadAndCache\<close>

text \<open>
  Claim C2. A refresh that fails (the catalog load returns an error, or the answer
  of \<open>GetAllRates\<close> carries a crypto or a fiat look-up error) returns an error and
  leaves the cache as it was; a refresh with none of the three errors returns no
  error and both tables are the ones of the answer.
\<close>

theorem loadAndCache_all_or_nothing:
  fixes m :: "'r MCache"
  assumes "loadAndCache (fiats, cryptos, loadErr) exchangeGetAllRates m = (err, m')"
  shows "(loadErr \<noteq> None \<or> CryptoLookupErr (exchangeGetAllRates cryptos fiats) \<noteq> None
            \<or> FiatLookupErr (exchangeGetAllRates cryptos fiats) \<noteq> None
          \<longrightarrow> err \<noteq> None \<and> m' = m) \<and>
         (loadErr = None \<and> CryptoLookupErr (exchangeGetAllRates cryptos fiats) = None
            \<and> FiatLookupErr (exchangeGetAllRates cryptos fiats) = None
          \<longrightarrow> err = None \<and> cryptoToFiat m' = CryptoToFiat (exchangeGetAllRates cryptos fiats)
                \<and> fiatToCrypto m' = FiatToCrypto (exchangeGetAllRates cryptos fiats))"
proof -
  let ?lookup = "exchangeGetAllRates cryptos fiats"
  have eq: "loadAndCache (fiats, cryptos, loadErr) exchangeGetAllRates m =
      (if loadErr \<noteq> None then (loadErr, m)
       else if CryptoLookupErr ?lookup \<noteq> None then (CryptoLookupErr ?lookup, m)
       else if FiatLookupErr ?lookup \<noteq> None then (FiatLookupErr ?lookup, m)
       else (None, m\<lparr>cryptoToFiat := CryptoToFiat ?lookup,
                      fiatToCrypto := FiatToCrypto ?lookup\<rparr>))"
    by (auto simp: loadAndCache_def Let_def split: option.splits)
  show ?thesis
    using assms unfolding eq by (auto split: if_splits) metis
qed

theorem loadAndCache_all_or_nothing_witness:
  "loadAndCache ([], [], None) (\<lambda>cryptos fiats. failingLookUp) scenario
     = (Some (Error ''context deadline exceeded''), scenario) \<and>
   loadAndCache ([], [], None) (\<lambda>cryptos fiats. freshLookUp) scenario
     = (None, \<lparr>fiatToCrypto = FiatToCrypto freshLookUp,
               cryptoToFiat = CryptoToFiat freshLookUp\<rparr>)"
proof -
  have a: "loadAndCache ([], [], None) (\<lambda>cryptos fiats. failingLookUp) scenario
     = (Some (Error ''context deadline exceeded''), scenario)"
    by (simp add: loadAndCache_def failingLookUp_def)
  have b: "loadAndCache ([], [], None) (\<lambda>cryptos fiats. freshLookUp) scenario
     = (None, \<lparr>fiatToCrypto = FiatToCrypto freshLookUp,
               cryptoToFiat = CryptoToFiat freshLookUp\<rparr>)"
    by (simp add: loadAndCache_def freshLookUp_def scenario_def)
  from loadAndCache_all_or_nothing [OF a] loadAndCache_all_or_nothing [OF b] a b
  show ?thesis by simp
qed

section \<open>The request lists of GetAllRates\<close>

lemma cryptosLoop_eq:
  "cryptosLoop fiat cryptos (fiatTargets, cryptoCombos) =
     (if cryptos = [] then fiatTargets else fiatTargets(Symbol fiat \<mapsto> Symbol (last cryptos)),
      cryptoCombos @ map (\<lambda>crypto. Symbol crypto @ ''/'' @ Symbol fiat) cryptos)"
  by (induction cryptos arbitrary: fiatTargets cryptoCombos) auto

lemma fiatsLoop_eq:
  "cryptos \<noteq> [] \<Longrightarrow>
   fiatsLoop fiats cryptos (fiatTargets, cryptoCombos) =
     (\<lambda>s. if s \<in> Symbol ` set fiats then Some (Symbol (last cryptos)) else fiatTargets s,
      cryptoCombos @
        map (\<lambda>(fiat, crypto). Symbol crypto @ ''/'' @ Symbol fiat) (List.product fiats cryptos))"
proof (induction fiats arbitrary: fiatTargets cryptoCombos)
  case Nil
  then show ?case by simp
next
  case (Cons fiat fiats)
  then show ?case
    by (auto simp: cryptosLoop_eq comp_def fun_eq_iff)
qed

text \<open>
  Claim C8. For non-empty lists of fiats and cryptos, \<open>cryptoCombos\<close> is the list of
  the strings \<open>CRYPTO/FIAT\<close>, one for each element of the cross product (fiats
  outside, cryptos inside), so it has \<open>|cryptos| * |fiats|\<close> entries; and
  \<open>fiatTargets\<close> has exactly the fiat symbols as keys, each mapped to the symbol of
  the last crypto of the list.
\<close>

theorem GetAllRates_lists_cross_product:
  assumes "fiats \<noteq> []" and "cryptos \<noteq> []"
    and "GetAllRates_lists cryptos fiats = (fiatTargets, cryptoCombos)"
  shows "cryptoCombos =
           map (\<lambda>(fiat, crypto). Symbol crypto @ ''/'' @ Symbol fiat) (List.product fiats cryptos)
         \<and> length cryptoCombos = length cryptos * length fiats
         \<and> dom fiatTargets = Symbol ` set fiats
         \<and> (\<forall>fiat\<in>set fiats. fiatTargets (Symbol fiat) = Some (Symbol (last cryptos)))"
proof -
  from assms(3) have
    ft: "fiatTargets = (\<lambda>s. if s \<in> Symbol ` set fiats then Some (Symbol (last cryptos)) else None)"
    and cc: "cryptoCombos =
      map (\<lambda>(fiat, crypto). Symbol crypto @ ''/'' @ Symbol fiat) (List.product fiats cryptos)"
    by (simp_all add: GetAllRates_lists_def fiatsLoop_eq [OF assms(2)])
  have "length cryptoCombos = length cryptos * length fiats"
    by (simp add: cc length_product mult.commute)
  moreover have "dom fiatTargets = Symbol ` set fiats"
    by (auto simp: ft dom_def)
  moreover have "\<forall>fiat\<in>set fiats. fiatTargets (Symbol fiat) = Some (Symbol (last cryptos))"
    by (simp add: ft)
  ultimately show ?thesis using cc by blast
qed

theorem GetAllRates_lists_cross_product_witness:
  "[usd, eur] \<noteq> [] \<and> [btc, eth] \<noteq> [] \<and>
   snd (GetAllRates_lists [btc, eth] [usd, eur])
     = [''BTC/USD'', ''ETH/USD'', ''BTC/EUR'', ''ETH/EUR''] \<and>
   fst (GetAllRates_lists [btc, eth] [usd, eur]) ''USD'' = Some ''ETH'' \<and>
   fst (GetAllRates_lists [btc, eth] [usd, eur]) ''EUR'' = Some ''ETH'' \<and>
   dom (fst (GetAllRates_lists [btc, eth] [usd, eur])) = {''USD'', ''EUR''}"
  using GetAllRates_lists_cross_product
    [of "[usd, eur]" "[btc, eth]" "fst (GetAllRates_lists [btc, eth] [usd, eur])"
        "snd (GetAllRates_lists [btc, eth] [usd, eur])"]
  by (simp add: usd_def eur_def btc_def eth_def)

section \<open>The batches of getCryptoRates\<close>

lemma batchLoop_singletons:
  "length launched = p \<Longrightarrow>
   batchLoop acquire 1 (int k) (int k) start (int p) launched =
     (let granted = takeWhile (\<lambda>i. acquire i = None) [p..<p + k]
      in (launched @ map (\<lambda>i. (int i, int i + 1)) granted,
          if length granted < k then acquire (p + length granted) else None))"
proof (induction k arbitrary: start p launched)
  case 0
  show ?case by (subst batchLoop.simps) simp
next
  case (Suc k)
  have upt: "[p..<Suc (p + k)] = p # [Suc p..<Suc (p + k)]"
    by (simp add: upt_conv_Cons)
  show ?case
  proof (cases "acquire p")
    case (Some err)
    with Suc.prems show ?thesis
      by (subst batchLoop.simps) (simp add: upt del: upt_Suc)
  next
    case None
    have len: "length (launched @ [(int p, int p + 1)]) = Suc p"
      using Suc.prems by simp
    have "batchLoop acquire 1 (int (Suc k)) (int (Suc k)) start (int p) launched =
          batchLoop acquire 1 (int k) (int k) (int p) (int (Suc p))
            (launched @ [(int p, int p + 1)])"
      using None Suc.prems by (subst batchLoop.simps) (auto simp: Let_def add.commute)
    also note Suc.IH [OF len]
    finally show ?thesis
      using None by (simp add: upt Let_def del: upt_Suc)
  qed
qed

lemma getCryptoRates_batches_eq:
  "getCryptoRates_batches acquire symbols =
     (let granted = takeWhile (\<lambda>i. acquire i = None) [0..<length symbols]
      in (map (\<lambda>i. (int i, int i + 1)) granted,
          if length granted < length symbols then acquire (length granted) else None))"
  using batchLoop_singletons [of "[]" 0 acquire "length symbols" 0]
  by (simp add: getCryptoRates_batches_def batchSize_def Let_def)

lemma slice_singleton:
  "i < length xs \<Longrightarrow> slice xs (int i) (int i + 1) = Some [xs ! i]"
  by (simp add: slice_def take_Suc_conv_app_nth hd_drop_conv_nth take_Suc)

text \<open>
  Claim C9, as stated, fails: a call of \<open>sem.Acquire\<close> that returns an error makes
  the loop return at once. With a semaphore that refuses the first permit, a list of
  one pair launches no worker.
\<close>

theorem getCryptoRates_batches_refused_counterexample:
  "getCryptoRates_batches refusing [''BTC/USD'']
     = ([], Some (Error ''context deadline exceeded''))"
  by (simp add: getCryptoRates_batches_eq refusing_def)

text \<open>
  Claim C9, amended. When every call of \<open>sem.Acquire\<close> succeeds, the loop launches
  exactly \<open>n\<close> workers, the \<open>i\<close>-th with the range \<open>[i, i + 1)\<close>, and the slices
  they pass to the provider are the single pairs of the input, in order (disjoint,
  of size one, covering the list). When the \<open>j\<close>-th call is the first to fail, the
  loop returns its error after launching the \<open>j\<close> singleton ranges before it.
\<close>

theorem getCryptoRates_batches_singletons:
  "((\<forall>k<length symbols. acquire k = None) \<longrightarrow>
      getCryptoRates_batches acquire symbols =
        (map (\<lambda>i. (int i, int i + 1)) [0..<length symbols], None) \<and>
      map (\<lambda>(from, to). slice symbols from to) (fst (getCryptoRates_batches acquire symbols)) =
        map (\<lambda>pair. Some [pair]) symbols) \<and>
   (j < length symbols \<and> (\<forall>k<j. acquire k = None) \<and> acquire j = Some err \<longrightarrow>
      getCryptoRates_batches acquire symbols =
        (map (\<lambda>i. (int i, int i + 1)) [0..<j], Some err))"
proof (intro conjI impI)
  assume all: "\<forall>k<length symbols. acquire k = None"
  then have tw: "takeWhile (\<lambda>i. acquire i = None) [0..<length symbols] = [0..<length symbols]"
    by (simp add: takeWhile_eq_all_conv)
  show eq: "getCryptoRates_batches acquire symbols =
        (map (\<lambda>i. (int i, int i + 1)) [0..<length symbols], None)"
    by (simp add: getCryptoRates_batches_eq tw)
  show "map (\<lambda>(from, to). slice symbols from to) (fst (getCryptoRates_batches acquire symbols)) =
        map (\<lambda>pair. Some [pair]) symbols"
  proof -
    have "map (\<lambda>(from, to). slice symbols from to)
            (map (\<lambda>i. (int i, int i + 1)) [0..<length symbols]) =
          map (\<lambda>i. Some [symbols ! i]) [0..<length symbols]"
      by (simp add: slice_singleton)
    also have "\<dots> = map (\<lambda>pair. Some [pair]) (map ((!) symbols) [0..<length symbols])"
      by simp
    also have "\<dots> = map (\<lambda>pair. Some [pair]) symbols"
      by (simp only: map_nth)
    finally show ?thesis by (simp only: eq fst_conv)
  qed
next
  assume h: "j < length symbols \<and> (\<forall>k<j. acquire k = None) \<and> acquire j = Some err"
  have split: "[0..<length symbols] = [0..<j] @ j # [Suc j..<length symbols]"
    using h by (metis le_add1 less_imp_add_positive upt_add_eq_append upt_conv_Cons plus_nat.add_0)
  have "takeWhile (\<lambda>i. acquire i = None) ([0..<j] @ j # [Suc j..<length symbols]) =
        [0..<j] @ takeWhile (\<lambda>i. acquire i = None) (j # [Suc j..<length symbols])"
    by (rule takeWhile_append2) (use h in auto)
  then have tw: "takeWhile (\<lambda>i. acquire i = None) [0..<length symbols] = [0..<j]"
    using h split by simp
  show "getCryptoRates_batches acquire symbols =
          (map (\<lambda>i. (int i, int i + 1)) [0..<j], Some err)"
    using h by (simp add: getCryptoRates_batches_eq tw)
qed

theorem getCryptoRates_batches_singletons_witness:
  "granting 0 = None \<and> granting 1 = None \<and> granting 2 = None \<and>
   getCryptoRates_batches granting [''BTC/USD'', ''BTC/EUR'', ''ETH/USD'']
     = ([(0, 1), (1, 2), (2, 3)], None) \<and>
   map (\<lambda>(from, to). slice [''BTC/USD'', ''BTC/EUR'', ''ETH/USD''] from to)
       [(0, 1), (1, 2), (2, 3)]
     = [Some [''BTC/USD''], Some [''BTC/EUR''], Some [''ETH/USD'']] \<and>
   failingSecond 0 = None \<and>
   failingSecond 1 = Some (Error ''context deadline exceeded'') \<and>
   getCryptoRates_batches failingSecond [''BTC/USD'', ''BTC/EUR'', ''ETH/USD'']
     = ([(0, 1)], Some (Error ''context deadline exceeded''))"
proof -
  have g: "\<forall>k<length [''BTC/USD'', ''BTC/EUR'', ''ETH/USD'']. granting k = None"
    by (simp add: granting_def)
  have f: "(1 :: nat) < length [''BTC/USD'', ''BTC/EUR'', ''ETH/USD''] \<and>
      (\<forall>k<1. failingSecond k = None) \<and>
      failingSecond 1 = Some (Error ''context deadline exceeded'')"
    by (simp add: failingSecond_def)
  have u: "[0..<3] = [0, 1, 2]" "[0..<1] = [0]"
    by (simp_all add: upt_conv_Cons)
  have sl: "slice [''BTC/USD'', ''BTC/EUR'', ''ETH/USD''] 0 1 = Some [''BTC/USD'']"
    "slice [''BTC/USD'', ''BTC/EUR'', ''ETH/USD''] 1 2 = Some [''BTC/EUR'']"
    "slice [''BTC/USD'', ''BTC/EUR'', ''ETH/USD''] 2 3 = Some [''ETH/USD'']"
    by (simp_all add: slice_def)
  from g f
    getCryptoRates_batches_singletons
      [of "[''BTC/USD'', ''BTC/EUR'', ''ETH/USD'']" granting 0 "Error []"]
    getCryptoRates_batches_singletons
      [of "[''BTC/USD'', ''BTC/EUR'', ''ETH/USD'']" failingSecond 1
          "Error ''context deadline exceeded''"]
  show ?thesis by (simp add: u sl granting_def)
qed

section \<open>The merge\<close>

text \<open>A merge that returns has a context that gets done.\<close>

lemma mergeResults_Some_deadline:
  assumes "mergeResults deadline rs storage = Some m"
  shows "deadline \<noteq> None"
proof (rule mergeResults.raw_induct [where P = "\<lambda>d rs st m. d \<noteq> None", OF _ assms])
  fix f :: "nat option \<Rightarrow> 'a ExchangeRate list \<Rightarrow> 'a RateTable \<Rightarrow> 'a RateTable option"
  fix d rs st m'
  assume IH: "\<And>d rs st y. f d rs st = Some y \<Longrightarrow> d \<noteq> None"
    and step: "(if d = Some 0 then Some st
       else case rs of [] \<Rightarrow> f (tick d) [] st
            | er # rest \<Rightarrow> f (tick d) rest (storeRate er st)) = Some m'"
  show "d \<noteq> None"
  proof (cases "d = Some 0")
    case True
    then show ?thesis by simp
  next
    case False
    with step have "\<exists>rs' st'. f (tick d) rs' st' = Some m'"
      by (auto split: list.splits)
    then have "tick d \<noteq> None" using IH by blast
    then show ?thesis by (auto simp: tick_def)
  qed
qed

text \<open>
  With a context that is done after \<open>k\<close> rounds the merge returns, and the table
  holds the first \<open>k\<close> records, written in order.
\<close>

lemma mergeResults_deadline:
  "mergeResults (Some k) rs storage =
     Some (foldl (\<lambda>st er. storeRate er st) storage (take k rs))"
proof (induction k arbitrary: rs storage)
  case 0
  show ?case by (subst mergeResults.simps) simp
next
  case (Suc k)
  show ?case
    by (subst mergeResults.simps) (simp add: tick_def Suc split: list.splits)
qed

lemma storeRate_lookup:
  "lookupRate (storeRate er st) b t =
     (if b = Symbol (Base er) \<and> t = Symbol (Target er) then Some (Rate er)
      else lookupRate st b t)"
  by (auto simp: storeRate_def lookupRate_def split: option.splits)

text \<open>Each entry after a run of writes: the last record for the pair, else the old entry.\<close>

lemma foldl_storeRate_lookup:
  "lookupRate (foldl (\<lambda>st er. storeRate er st) st rs) b t =
     (case find (\<lambda>er. Symbol (Base er) = b \<and> Symbol (Target er) = t) (rev rs) of
        Some er \<Rightarrow> Some (Rate er)
      | None \<Rightarrow> lookupRate st b t)"
proof (induction rs rule: rev_induct)
  case Nil
  show ?case by simp
next
  case (snoc er rs)
  then show ?case by (auto simp: storeRate_lookup)
qed

lemma foldl_storeRate_positive:
  fixes st :: "('r::{zero,ord}) RateTable"
  assumes "\<forall>er\<in>set rs. 0 < Rate er"
    and "\<forall>b t r. lookupRate st b t = Some r \<longrightarrow> 0 < r"
    and "lookupRate (foldl (\<lambda>st er. storeRate er st) st rs) b t = Some r"
  shows "0 < r"
  using assms
proof (induction rs arbitrary: st)
  case Nil
  then show ?case by simp
next
  case (Cons er rs)
  have "\<forall>b t r. lookupRate (storeRate er st) b t = Some r \<longrightarrow> 0 < r"
    using Cons.prems(1,2) by (auto simp: storeRate_lookup split: if_splits)
  with Cons show ?case by simp
qed

text \<open>
  Claim C7 does not hold of the code. With a context that is never done,
  \<open>mergeResults\<close> does not return, whatever finite sequence the channel delivers
  before it is closed: on the closed channel the \<open>break\<close> leaves the \<open>select\<close> and
  the \<open>for\<close> loop goes on.
\<close>

theorem mergeResults_spins_on_closed_channel:
  "mergeResults None rs storage = None"
proof (cases "mergeResults None rs storage")
  case None
  then show ?thesis .
next
  case (Some m)
  then show ?thesis using mergeResults_Some_deadline by blast
qed

text \<open>
  Claim C3, as stated, fails: the merge writes a record with the rate 0 (what
  \<open>GetRate\<close> returns for a target missing from the answer) into the table.
\<close>

theorem mergeResults_stores_zero_counterexample:
  "mergeResults (Some 1) [zeroRate] Map.empty = Some (storeRate zeroRate Map.empty) \<and>
   lookupRate (storeRate zeroRate Map.empty) ''USD'' ''BTC'' = Some 0 \<and>
   \<not> (0 :: real) < 0"
  by (simp add: mergeResults_deadline storeRate_lookup zeroRate_def)

text \<open>
  Claim C3, amended. The merge stores the rates as they are received, without any
  check: in the merged table the entry of a pair (base, target) is the rate of the
  last received record for that pair, whatever its value (zero and negative rates
  included), and the entry of the table the merge started from when no record for
  the pair was received. Hence, when every received record has a strictly positive
  rate and the starting table has only strictly positive rates, every rate of the
  merged table is strictly positive.
\<close>

theorem mergeResults_stores_as_received:
  fixes storage :: "('r::{zero,ord}) RateTable"
  assumes "mergeResults deadline rs storage = Some merged"
  shows "\<exists>k. deadline = Some k \<and>
     (\<forall>b t. lookupRate merged b t =
        (case find (\<lambda>er. Symbol (Base er) = b \<and> Symbol (Target er) = t) (rev (take k rs)) of
           Some er \<Rightarrow> Some (Rate er)
         | None \<Rightarrow> lookupRate storage b t)) \<and>
     ((\<forall>er\<in>set rs. 0 < Rate er) \<and> (\<forall>b t r. lookupRate storage b t = Some r \<longrightarrow> 0 < r)
        \<longrightarrow> (\<forall>b t r. lookupRate merged b t = Some r \<longrightarrow> 0 < r))"
proof -
  from assms obtain k where k: "deadline = Some k"
    using mergeResults_Some_deadline by blast
  with assms have m: "merged = foldl (\<lambda>st er. storeRate er st) storage (take k rs)"
    by (simp add: mergeResults_deadline)
  have stored: "\<forall>b t. lookupRate merged b t =
        (case find (\<lambda>er. Symbol (Base er) = b \<and> Symbol (Target er) = t) (rev (take k rs)) of
           Some er \<Rightarrow> Some (Rate er)
         | None \<Rightarrow> lookupRate storage b t)"
    unfolding m by (simp add: foldl_storeRate_lookup)
  have positive: "(\<forall>er\<in>set rs. 0 < Rate er) \<and> (\<forall>b t r. lookupRate storage b t = Some r \<longrightarrow> 0 < r)
        \<longrightarrow> (\<forall>b t r. lookupRate merged b t = Some r \<longrightarrow> 0 < r)"
  proof (intro impI allI, elim conjE)
    fix b t r
    assume pos: "\<forall>er\<in>set rs. 0 < Rate er"
      and st: "\<forall>b t r. lookupRate storage b t = Some r \<longrightarrow> 0 < r"
      and r: "lookupRate merged b t = Some r"
    have "\<forall>er\<in>set (take k rs). 0 < Rate er"
      using pos by (auto dest: in_set_takeD)
    from foldl_storeRate_positive [OF this st] r m show "0 < r" by blast
  qed
  from k stored positive show ?thesis by blast
qed

theorem mergeResults_stores_as_received_witness:
  "mergeResults (Some 5) [btcUsd, zeroRate] Map.empty
     = Some (storeRate zeroRate (storeRate btcUsd Map.empty)) \<and>
   lookupRate (storeRate zeroRate (storeRate btcUsd Map.empty)) ''BTC'' ''USD'' = Some 50000 \<and>
   lookupRate (storeRate zeroRate (storeRate btcUsd Map.empty)) ''USD'' ''BTC'' = Some 0 \<and>
   lookupRate (storeRate zeroRate (storeRate btcUsd Map.empty)) ''BTC'' ''EUR'' = None"
proof -
  have a: "mergeResults (Some 5) [btcUsd, zeroRate] Map.empty
     = Some (storeRate zeroRate (storeRate btcUsd Map.empty))"
    by (simp add: mergeResults_deadline)
  have e: "lookupRate (Map.empty :: real RateTable) ''BTC'' ''EUR'' = None"
    by (simp add: lookupRate_def)
  from mergeResults_stores_as_received [OF a] e a
  show ?thesis by (simp add: btcUsd_def zeroRate_def)
qed

section \<open>GetRate\<close>

text \<open>
  Claim C10. When the request goes through, the status is 200 and the body decodes
  to a response whose results have no entry for \<open>to\<close>, \<open>GetRate\<close> returns no
  error but a record with the rate 0, the base (the response's base symbol) tagged
  \<open>Fiat\<close> and the target \<open>to\<close> tagged \<open>Crypto\<close>.
\<close>

theorem GetRate_missing_target:
  fixes w :: "('r::zero) world"
  assumes "parseErr w = None" and "newRequestErr w = None" and "waitErr w = None"
    and "httpResult w = Inr resp" and "StatusCode resp = 200" and "Body resp = Decoded r"
    and "Results r to = None"
  shows "GetRate w from to =
           Inr \<lparr>Base = \<lparr>Name = [], Symbol = Response_Base r, CurrencyType = Fiat\<rparr>,
                Target = \<lparr>Name = [], Symbol = to, CurrencyType = Crypto\<rparr>,
                Rate = 0\<rparr>"
  using assms by (simp add: GetRate_def Do_def)

theorem GetRate_missing_target_witness:
  "parseErr usdWithoutBtc = None \<and> newRequestErr usdWithoutBtc = None \<and>
   waitErr usdWithoutBtc = None \<and> httpResult usdWithoutBtc = Inr usdAnswer \<and>
   StatusCode usdAnswer = 200 \<and> Body usdAnswer = Decoded usdBody \<and>
   Results usdBody ''BTC'' = None \<and>
   GetRate usdWithoutBtc ''USD'' ''BTC'' =
     Inr \<lparr>Base = \<lparr>Name = [], Symbol = ''USD'', CurrencyType = Fiat\<rparr>,
          Target = \<lparr>Name = [], Symbol = ''BTC'', CurrencyType = Crypto\<rparr>,
          Rate = 0\<rparr>"
proof -
  have h: "parseErr usdWithoutBtc = None" "newRequestErr usdWithoutBtc = None"
    "waitErr usdWithoutBtc = None" "httpResult usdWithoutBtc = Inr usdAnswer"
    "StatusCode usdAnswer = 200" "Body usdAnswer = Decoded usdBody"
    "Results usdBody ''BTC'' = None"
    by (simp_all add: usdWithoutBtc_def usdAnswer_def usdBody_def)
  have s: "Response_Base usdBody = ''USD''"
    by (simp add: usdBody_def)
  from GetRate_missing_target [OF h, of "''USD''"] h s show ?thesis by simp
qed

end
